theory Spec2Isabelle
  imports Main
begin

section \<open>Strings and the built-in string operations\<close>

text \<open>
  A JavaScript string is a sequence of code units. The embedding uses \<^typ>\<open>string\<close>, so
  it covers the strings whose code units lie in the range 0..255. On that range
  \<open>toLowerCase\<close> and the regular-expression classes \<open>[a-z0-9]\<close>, \<open>[A-Z]\<close>, \<open>[a-z]\<close> and
  \<open>\s\<close> are modelled exactly. \<open>toUpperCase\<close> is modelled exactly except at the three code
  units U+00B5, U+00DF and U+00FF, whose upper-case forms are not a single code unit of
  the range; the model leaves them unchanged.
\<close>

definition codeUnit :: "char \<Rightarrow> nat" where
  "codeUnit c = of_char c"

text \<open>The class \<open>[A-Z]\<close>.\<close>

definition isAZ :: "char \<Rightarrow> bool" where
  "isAZ c = (65 \<le> codeUnit c \<and> codeUnit c \<le> 90)"

text \<open>The class \<open>[a-z]\<close>.\<close>

definition isaz :: "char \<Rightarrow> bool" where
  "isaz c = (97 \<le> codeUnit c \<and> codeUnit c \<le> 122)"

text \<open>The class \<open>[0-9]\<close>.\<close>

definition is09 :: "char \<Rightarrow> bool" where
  "is09 c = (48 \<le> codeUnit c \<and> codeUnit c \<le> 57)"

text \<open>The class \<open>[a-z0-9]\<close>.\<close>

definition isaz09 :: "char \<Rightarrow> bool" where
  "isaz09 c = (isaz c \<or> is09 c)"

text \<open>
  The class \<open>\s\<close> on code units below 256: TAB, LF, VT, FF, CR, SPACE and the no-break
  space U+00A0.
\<close>

definition isSpace :: "char \<Rightarrow> bool" where
  "isSpace c = ((9 \<le> codeUnit c \<and> codeUnit c \<le> 13) \<or> codeUnit c = 32 \<or> codeUnit c = 160)"

text \<open>
  The letters with a lower-case partner 32 code units above them: \<open>A\<close>..\<open>Z\<close> and
  U+00C0..U+00DE without the multiplication sign U+00D7.
\<close>

definition hasLower :: "char \<Rightarrow> bool" where
  "hasLower c = (isAZ c \<or> (192 \<le> codeUnit c \<and> codeUnit c \<le> 222 \<and> codeUnit c \<noteq> 215))"

text \<open>
  The letters with an upper-case partner 32 code units below them: \<open>a\<close>..\<open>z\<close> and
  U+00E0..U+00FE without the division sign U+00F7.
\<close>

definition hasUpper :: "char \<Rightarrow> bool" where
  "hasUpper c = (isaz c \<or> (224 \<le> codeUnit c \<and> codeUnit c \<le> 254 \<and> codeUnit c \<noteq> 247))"

definition lowerUnit :: "char \<Rightarrow> char" where
  "lowerUnit c = (if hasLower c then char_of (codeUnit c + 32) else c)"

definition upperUnit :: "char \<Rightarrow> char" where
  "upperUnit c = (if hasUpper c then char_of (codeUnit c - 32) else c)"

text \<open>
  The code units on which \<open>upperUnit\<close> is the built-in upper-case mapping: every code
  unit of the range but U+00B5, U+00DF and U+00FF. All of ASCII is among them.
\<close>

definition upperExact :: "char \<Rightarrow> bool" where
  "upperExact c = (codeUnit c \<noteq> 181 \<and> codeUnit c \<noteq> 223 \<and> codeUnit c \<noteq> 255)"

text \<open>\<open>String.prototype.toLowerCase\<close> and \<open>String.prototype.toUpperCase\<close>.\<close>

definition toLowerCase :: "string \<Rightarrow> string" where
  "toLowerCase s = map lowerUnit s"

definition toUpperCase :: "string \<Rightarrow> string" where
  "toUpperCase s = map upperUnit s"

text \<open>
  \<open>String.prototype.split\<close> where the separator matches exactly one code unit (a
  one-character string, or a regular expression that is a single character class): the
  string is cut at every matching code unit, the matching code units are dropped, and a
  string without a match, the empty string included, gives the one-element array holding
  it. \<open>cur\<close> is the fragment being read, in reverse.
\<close>

fun splitAcc :: "(char \<Rightarrow> bool) \<Rightarrow> string \<Rightarrow> string \<Rightarrow> string list" where
  "splitAcc p cur [] = [rev cur]"
| "splitAcc p cur (c # cs) =
     (if p c then rev cur # splitAcc p [] cs else splitAcc p (c # cur) cs)"

definition splitBy :: "(char \<Rightarrow> bool) \<Rightarrow> string \<Rightarrow> string list" where
  "splitBy p s = splitAcc p [] s"

text \<open>\<open>str.split(separator)\<close> for a one-character separator string.\<close>

definition split :: "string \<Rightarrow> char \<Rightarrow> string list" where
  "split s sep = splitBy (\<lambda>c. c = sep) s"

text \<open>\<open>Array.prototype.join\<close> on an array of strings.\<close>

fun join :: "string list \<Rightarrow> string \<Rightarrow> string" where
  "join [] sep = []"
| "join [w] sep = w"
| "join (w # v # ws) sep = w @ sep @ join (v # ws) sep"

text \<open>\<open>charAt(0)\<close> is the empty string on an empty string; \<open>slice(1)\<close> likewise.\<close>

definition charAt0 :: "string \<Rightarrow> string" where
  "charAt0 s = take 1 s"

definition slice1 :: "string \<Rightarrow> string" where
  "slice1 s = drop 1 s"

section \<open>converters.ts\<close>

datatype NullableString = Null | Undefined | Str string

text \<open>Utility: safely return input or empty string (\<open>input ?? ""\<close>).\<close>

fun safeString :: "NullableString \<Rightarrow> string" where
  "safeString Null = []"
| "safeString Undefined = []"
| "safeString (Str s) = s"

subsection \<open>Tokenizers\<close>

text \<open>
  \<open>.replace(/([a-z0-9])([A-Z])/g, "$1 $2")\<close>: the scan goes left to right; a match
  consumes both of its code units and the scan goes on behind it.
\<close>

fun replaceLowerUpper :: "string \<Rightarrow> string" where
  "replaceLowerUpper (a # b # cs) =
     (if isaz09 a \<and> isAZ b then a # CHR '' '' # b # replaceLowerUpper cs
      else a # replaceLowerUpper (b # cs))"
| "replaceLowerUpper cs = cs"

text \<open>
  \<open>.replace(/([A-Z])([A-Z][a-z])/g, "$1 $2")\<close>: a match consumes three code units.
\<close>

fun replaceUpperUpperLower :: "string \<Rightarrow> string" where
  "replaceUpperUpperLower (a # b # c # cs) =
     (if isAZ a \<and> isAZ b \<and> isaz c then a # CHR '' '' # b # c # replaceUpperUpperLower cs
      else a # replaceUpperUpperLower (b # c # cs))"
| "replaceUpperUpperLower cs = cs"

text \<open>Tokenize camelCase or PascalCase string to array of words (lowercased).\<close>

definition tokenizeCamelPascal :: "string \<Rightarrow> string list" where
  "tokenizeCamelPascal str =
     map toLowerCase (splitBy isSpace (replaceUpperUpperLower (replaceLowerUpper str)))"

text \<open>
  Tokenize snake_case, screaming_snake_case, kebab-case, dot.case, path/case into words
  (lowercased). Every call passes a one-character string literal as separator.
\<close>

definition tokenizeSeparator :: "string \<Rightarrow> char \<Rightarrow> string list" where
  "tokenizeSeparator str separator = map toLowerCase (split str separator)"

text \<open>Tokenize UPPERCASE or lowercase string into a single word array.\<close>

definition tokenizeFlat :: "string \<Rightarrow> string list" where
  "tokenizeFlat str = [toLowerCase str]"

subsection \<open>Formatters\<close>

definition toCamel :: "string list \<Rightarrow> string" where
  "toCamel tokens =
     join (map (\<lambda>(idx, word).
                  if idx = 0 then word else toUpperCase (charAt0 word) @ slice1 word)
               (enumerate 0 tokens)) []"

definition toPascal :: "string list \<Rightarrow> string" where
  "toPascal tokens = join (map (\<lambda>word. toUpperCase (charAt0 word) @ slice1 word) tokens) []"

definition toSnake :: "string list \<Rightarrow> string" where
  "toSnake tokens = join tokens ''_''"

definition toScreamingSnake :: "string list \<Rightarrow> string" where
  "toScreamingSnake tokens = toUpperCase (join tokens ''_'')"

definition toKebab :: "string list \<Rightarrow> string" where
  "toKebab tokens = join tokens ''-''"

definition toDot :: "string list \<Rightarrow> string" where
  "toDot tokens = join tokens ''.''"

definition toPath :: "string list \<Rightarrow> string" where
  "toPath tokens = join tokens ''/''"

definition toUpper :: "string list \<Rightarrow> string" where
  "toUpper tokens = toUpperCase (join tokens [])"

definition toLower :: "string list \<Rightarrow> string" where
  "toLower tokens = toLowerCase (join tokens [])"

subsection \<open>The tables by case type\<close>

datatype CaseType = Camel | Pascal | Snake | Screaming | Kebab | Dot | Path | Upper | Lower

fun tokenizeByCase :: "CaseType \<Rightarrow> string \<Rightarrow> string list" where
  "tokenizeByCase Camel str = tokenizeCamelPascal str"
| "tokenizeByCase Pascal str = tokenizeCamelPascal str"
| "tokenizeByCase Snake str = tokenizeSeparator str CHR ''_''"
| "tokenizeByCase Screaming str = tokenizeSeparator (toLowerCase str) CHR ''_''"
| "tokenizeByCase Kebab str = tokenizeSeparator str CHR ''-''"
| "tokenizeByCase Dot str = tokenizeSeparator str CHR ''.''"
| "tokenizeByCase Path str = tokenizeSeparator str CHR ''/''"
| "tokenizeByCase Upper str = tokenizeFlat str"
| "tokenizeByCase Lower str = tokenizeFlat str"

fun formatByCase :: "CaseType \<Rightarrow> string list \<Rightarrow> string" where
  "formatByCase Camel tokens = toCamel tokens"
| "formatByCase Pascal tokens = toPascal tokens"
| "formatByCase Snake tokens = toSnake tokens"
| "formatByCase Screaming tokens = toScreamingSnake tokens"
| "formatByCase Kebab tokens = toKebab tokens"
| "formatByCase Dot tokens = toDot tokens"
| "formatByCase Path tokens = toPath tokens"
| "formatByCase Upper tokens = toUpper tokens"
| "formatByCase Lower tokens = toLower tokens"

text \<open>Helper to tokenize string with given case.\<close>

definition tokenize :: "string \<Rightarrow> CaseType \<Rightarrow> string list" where
  "tokenize input caseType = tokenizeByCase caseType input"

text \<open>Helper to format tokens into target case.\<close>

definition format :: "string list \<Rightarrow> CaseType \<Rightarrow> string" where
  "format tokens caseType = formatByCase caseType tokens"

subsection \<open>The conversion functions\<close>

text \<open>Factory to create all 81 conversion functions. \<open>!str\<close> holds of the empty string only.\<close>

definition createConverter :: "CaseType \<Rightarrow> CaseType \<Rightarrow> NullableString \<Rightarrow> string" where
  "createConverter fromCase toCase input =
     (let str = safeString input in
      if str = [] then []
      else if fromCase = toCase then str
      else format (tokenize str fromCase) toCase)"

text \<open>The string literal that is the value of a case type.\<close>

fun caseName :: "CaseType \<Rightarrow> string" where
  "caseName Camel = ''camel''"
| "caseName Pascal = ''pascal''"
| "caseName Snake = ''snake''"
| "caseName Screaming = ''screaming''"
| "caseName Kebab = ''kebab''"
| "caseName Dot = ''dot''"
| "caseName Path = ''path''"
| "caseName Upper = ''upper''"
| "caseName Lower = ''lower''"

definition cases :: "CaseType list" where
  "cases = [Camel, Pascal, Snake, Screaming, Kebab, Dot, Path, Upper, Lower]"

definition fnName :: "CaseType \<Rightarrow> CaseType \<Rightarrow> string" where
  "fnName from to =
     caseName from @ ''To'' @ toUpperCase (charAt0 (caseName to)) @ slice1 (caseName to)"

text \<open>
  The record \<open>converters\<close> after the two nested \<open>forEach\<close> loops: a later assignment to
  a name replaces an earlier one.
\<close>

definition converters :: "string \<rightharpoonup> (NullableString \<Rightarrow> string)" where
  "converters =
     fold (\<lambda>from m. fold (\<lambda>to m'. m'(fnName from to \<mapsto> createConverter from to)) cases m)
          cases Map.empty"

text \<open>
  A call of the export \<open>name\<close> taken out of \<open>converters\<close> by the destructuring
  declaration: a name that the record lacks is bound to \<open>undefined\<close>, and calling it
  raises a \<open>TypeError\<close>.
\<close>

datatype error = TypeError

definition callConverter :: "string \<Rightarrow> NullableString \<Rightarrow> error + string" where
  "callConverter name input =
     (case converters name of None \<Rightarrow> Inl TypeError | Some f \<Rightarrow> Inr (f input))"

subsection \<open>The word-level exports\<close>

definition camelToWords :: "NullableString \<Rightarrow> string list" where
  "camelToWords input = tokenizeCamelPascal (safeString input)"

definition pascalToWords :: "NullableString \<Rightarrow> string list" where
  "pascalToWords input = tokenizeCamelPascal (safeString input)"

definition snakeToWords :: "NullableString \<Rightarrow> string list" where
  "snakeToWords input = tokenizeSeparator (safeString input) CHR ''_''"

definition screamingToWords :: "NullableString \<Rightarrow> string list" where
  "screamingToWords input = tokenizeSeparator (toLowerCase (safeString input)) CHR ''_''"

definition kebabToWords :: "NullableString \<Rightarrow> string list" where
  "kebabToWords input = tokenizeSeparator (safeString input) CHR ''-''"

definition dotToWords :: "NullableString \<Rightarrow> string list" where
  "dotToWords input = tokenizeSeparator (safeString input) CHR ''.''"

definition pathToWords :: "NullableString \<Rightarrow> string list" where
  "pathToWords input = tokenizeSeparator (safeString input) CHR ''/''"

definition upperToWords :: "NullableString \<Rightarrow> string list" where
  "upperToWords input = tokenizeFlat (safeString input)"

definition lowerToWords :: "NullableString \<Rightarrow> string list" where
  "lowerToWords input = tokenizeFlat (safeString input)"

section \<open>Notions of the specification\<close>

text \<open>
  \<open>String.prototype.trim\<close>, the reading of the word "trimmed": the string without its
  leading and trailing white space. No function of \<open>converters.ts\<close> calls it.
\<close>

definition trim :: "string \<Rightarrow> string" where
  "trim s = rev (dropWhile isSpace (rev (dropWhile isSpace s)))"

text \<open>A token capitalized: its first character uppercased, the rest unchanged.\<close>

fun capitalize :: "string \<Rightarrow> string" where
  "capitalize [] = []"
| "capitalize (c # cs) = upperUnit c # cs"

text \<open>
  The two boundary rules of the camel/pascal tokenizer, read position by position on the
  input string. \<open>boundaryAfter a rest\<close> says that a word boundary belongs between the
  character \<open>a\<close> and the characters \<open>rest\<close> that follow it: \<open>a\<close> is a lowercase letter or
  a digit and an uppercase letter follows immediately, or \<open>a\<close> is an uppercase letter and
  an uppercase letter and then a lowercase letter follow immediately.
\<close>

fun startsUpper :: "string \<Rightarrow> bool" where
  "startsUpper (b # cs) = isAZ b"
| "startsUpper [] = False"

fun startsUpperLower :: "string \<Rightarrow> bool" where
  "startsUpperLower (b # c # cs) = (isAZ b \<and> isaz c)"
| "startsUpperLower cs = False"

definition boundaryAfter :: "char \<Rightarrow> string \<Rightarrow> bool" where
  "boundaryAfter a rest = ((isaz09 a \<and> startsUpper rest) \<or> (isAZ a \<and> startsUpperLower rest))"

text \<open>The string with a space put in at every word boundary.\<close>

fun insertBoundaries :: "string \<Rightarrow> string" where
  "insertBoundaries [] = []"
| "insertBoundaries (a # cs) =
     (if boundaryAfter a cs then a # CHR '' '' # insertBoundaries cs
      else a # insertBoundaries cs)"

text \<open>
  The string cut into its fragments at the word boundaries, nothing dropped. \<open>cur\<close> is
  the fragment being read, in reverse.
\<close>

fun cutAcc :: "string \<Rightarrow> string \<Rightarrow> string list" where
  "cutAcc cur [] = [rev cur]"
| "cutAcc cur (a # cs) =
     (if boundaryAfter a cs then rev (a # cur) # cutAcc [] cs else cutAcc (a # cur) cs)"

definition cutAtBoundaries :: "string \<Rightarrow> string list" where
  "cutAtBoundaries s = cutAcc [] s"

section \<open>Characters and case mapping\<close>

lemma codeUnit_less: "codeUnit c < 256"
  unfolding codeUnit_def by (metis of_char_of char_of_char mod_less_divisor zero_less_numeral)

lemma codeUnit_char_of: "n < 256 \<Longrightarrow> codeUnit (char_of n) = n"
  by (simp add: codeUnit_def)

lemma char_eq_codeUnit: "(c = d) = (codeUnit c = codeUnit d)"
  by (simp add: codeUnit_def)

lemma lowerUnit_not_hasLower: "\<not> hasLower (lowerUnit c)"
  using codeUnit_less [of c]
  by (auto simp add: lowerUnit_def hasLower_def isAZ_def codeUnit_char_of)

lemma lowerUnit_idem: "lowerUnit (lowerUnit c) = lowerUnit c"
  using lowerUnit_not_hasLower [of c] by (simp add: lowerUnit_def)

lemma lowerUnit_eq_sep:
  assumes "\<not> hasLower sep" "\<not> hasUpper sep"
  shows "(lowerUnit c = sep) = (c = sep)"
proof (cases "hasLower c")
  case False
  then show ?thesis by (simp add: lowerUnit_def)
next
  case True
  have "hasUpper (lowerUnit c)"
    using True codeUnit_less [of c]
    by (auto simp add: lowerUnit_def hasLower_def hasUpper_def isAZ_def isaz_def codeUnit_char_of)
  then have "lowerUnit c \<noteq> sep" using assms(2) by auto
  moreover have "c \<noteq> sep" using True assms(1) by auto
  ultimately show ?thesis by simp
qed

lemma isaz09_lowerUnit: "isaz09 c \<Longrightarrow> lowerUnit c = c"
  by (auto simp add: lowerUnit_def hasLower_def isaz09_def isaz_def is09_def isAZ_def)

lemma isaz09_lower_upper: "isaz09 c \<Longrightarrow> lowerUnit (upperUnit c) = c"
  using codeUnit_less [of c]
  by (auto simp add: lowerUnit_def upperUnit_def hasLower_def hasUpper_def isaz09_def isaz_def
      is09_def isAZ_def codeUnit_char_of char_eq_codeUnit)


lemma toLowerCase_idem: "toLowerCase (toLowerCase s) = toLowerCase s"
  by (simp add: toLowerCase_def lowerUnit_idem)

lemma underscore_caseless: "\<not> hasLower CHR ''_'' \<and> \<not> hasUpper CHR ''_''"
  by (simp add: hasLower_def hasUpper_def isAZ_def isaz_def codeUnit_def)

section \<open>Splitting and joining\<close>

lemma splitAcc_map:
  assumes "\<And>c. (f c = sep) = (c = sep)"
  shows "splitAcc (\<lambda>c. c = sep) (map f cur) (map f s) =
         map (map f) (splitAcc (\<lambda>c. c = sep) cur s)"
proof (induction s arbitrary: cur)
  case Nil
  show ?case by (simp add: rev_map)
next
  case (Cons c cs)
  show ?case
  proof (cases "c = sep")
    case True
    then show ?thesis using Cons.IH [of "[]"] assms by (simp add: rev_map)
  next
    case False
    then show ?thesis using Cons.IH [of "c # cur"] assms by simp
  qed
qed

lemma split_toLowerCase:
  assumes "\<not> hasLower sep" "\<not> hasUpper sep"
  shows "split (toLowerCase s) sep = map toLowerCase (split s sep)"
proof -
  have "splitAcc (\<lambda>c. c = sep) (map lowerUnit []) (map lowerUnit s) =
        map (map lowerUnit) (splitAcc (\<lambda>c. c = sep) [] s)"
    by (rule splitAcc_map) (rule lowerUnit_eq_sep [OF assms])
  then show ?thesis
    by (simp add: split_def splitBy_def toLowerCase_def [abs_def])
qed

lemma splitAcc_no_sep:
  "sep \<notin> set w \<Longrightarrow>
   splitAcc (\<lambda>c. c = sep) cur (w @ rest) = splitAcc (\<lambda>c. c = sep) (rev w @ cur) rest"
  by (induction w arbitrary: cur) auto

lemma split_join:
  assumes "tokens \<noteq> []" "\<forall>t \<in> set tokens. sep \<notin> set t"
  shows "split (join tokens [sep]) sep = tokens"
  using assms
proof (induction tokens "[sep]" rule: join.induct)
  case 1
  then show ?case by simp
next
  case (2 w)
  then have "sep \<notin> set w" by simp
  then have "splitAcc (\<lambda>c. c = sep) [] (w @ []) = splitAcc (\<lambda>c. c = sep) (rev w @ []) []"
    by (rule splitAcc_no_sep)
  then show ?case by (simp add: split_def splitBy_def)
next
  case (3 w v ws)
  then have w: "sep \<notin> set w" by simp
  have rest: "split (join (v # ws) [sep]) sep = v # ws" using 3 by simp
  have "splitAcc (\<lambda>c. c = sep) [] (w @ sep # join (v # ws) [sep]) =
        splitAcc (\<lambda>c. c = sep) (rev w @ []) (sep # join (v # ws) [sep])"
    using w by (rule splitAcc_no_sep)
  then show ?case using rest by (simp add: split_def splitBy_def)
qed

lemma set_join: "set (join tokens sep) \<subseteq> \<Union> (set ` set tokens) \<union> set sep"
  by (induction tokens sep rule: join.induct) auto

lemma join_no_separator: "join ws [] = concat ws"
  by (induction ws "[] :: string" rule: join.induct) auto

section \<open>The record of conversion functions\<close>

lemma fold_nested_product:
  "fold (\<lambda>a m. fold (\<lambda>b m'. g a b m') ys m) xs m0 =
   fold (\<lambda>(a, b) m. g a b m) (List.product xs ys) m0"
proof (induction xs arbitrary: m0)
  case Nil
  show ?case by simp
next
  case (Cons x xs)
  have "fold (\<lambda>(a, b) m. g a b m) (map (Pair x) ys) m0 = fold (\<lambda>b m'. g x b m') ys m0"
    by (simp add: fold_map comp_def)
  then show ?case using Cons.IH by simp
qed

lemma fold_update_other:
  "k \<notin> key ` set xs \<Longrightarrow> fold (\<lambda>x m. m(key x \<mapsto> val x)) xs m k = m k"
  by (induction xs arbitrary: m) auto

lemma fold_update_member:
  "distinct (map key xs) \<Longrightarrow> x \<in> set xs \<Longrightarrow>
   fold (\<lambda>x m. m(key x \<mapsto> val x)) xs m (key x) = Some (val x)"
proof (induction xs arbitrary: m)
  case Nil
  then show ?case by simp
next
  case (Cons y ys)
  show ?case
  proof (cases "x \<in> set ys")
    case True
    then show ?thesis using Cons by simp
  next
    case False
    then have xy: "x = y" using Cons.prems by simp
    have "key y \<notin> key ` set ys" using Cons.prems(1) by simp
    then have "fold (\<lambda>x m. m(key x \<mapsto> val x)) ys (m(key y \<mapsto> val y)) (key y) =
               (m(key y \<mapsto> val y)) (key y)"
      by (rule fold_update_other)
    also have "\<dots> = Some (val y)" by simp
    finally have "fold (\<lambda>x m. m(key x \<mapsto> val x)) ys (m(key y \<mapsto> val y)) (key y) =
                  Some (val y)" .
    then show ?thesis unfolding xy by (simp only: fold_simps comp_apply)
  qed
qed

text \<open>The 81 names are pairwise different, so no assignment replaces an earlier one.\<close>

lemma fnName_distinct:
  "distinct (map (\<lambda>(a, b). fnName a b) (List.product cases cases))"
  by (simp add: cases_def fnName_def charAt0_def slice1_def toUpperCase_def upperUnit_def
      hasUpper_def isaz_def codeUnit_def char_of_def bit_0)

lemma cases_all_pairs: "(a, b) \<in> set (List.product cases cases)"
  by (cases a; cases b; simp add: cases_def)

lemma converters_lookup: "converters (fnName a b) = Some (createConverter a b)"
proof -
  have "converters =
        fold (\<lambda>p m. m((\<lambda>(a, b). fnName a b) p \<mapsto> (\<lambda>(a, b). createConverter a b) p))
             (List.product cases cases) Map.empty"
    unfolding converters_def fold_nested_product by (simp add: case_prod_unfold)
  moreover have "fold (\<lambda>p m. m((\<lambda>(a, b). fnName a b) p \<mapsto> (\<lambda>(a, b). createConverter a b) p))
                      (List.product cases cases) Map.empty ((\<lambda>(a, b). fnName a b) (a, b)) =
                 Some ((\<lambda>(a, b). createConverter a b) (a, b))"
    using fnName_distinct cases_all_pairs by (rule fold_update_member)
  ultimately show ?thesis by simp
qed

lemma fnName_Kebab_Screaming: "fnName Kebab Screaming = ''kebabToScreaming''"
  by (simp add: fnName_def charAt0_def slice1_def toUpperCase_def upperUnit_def
      hasUpper_def isaz_def codeUnit_def char_of_def bit_0)

lemma fnName_Camel_Camel: "fnName Camel Camel = ''camelToCamel''"
  by (simp add: fnName_def charAt0_def slice1_def toUpperCase_def upperUnit_def
      hasUpper_def isaz_def codeUnit_def char_of_def bit_0)

section \<open>Nullish input\<close>

text \<open>
  C3. For every ordered pair of the nine case types, the conversion function stored under
  the pair's name returns the empty string on \<open>null\<close> and on \<open>undefined\<close>; the call raises
  no error.
\<close>

theorem nullish_input_gives_empty_string:
  "callConverter (fnName fromCase toCase) Null = Inr [] \<and>
   callConverter (fnName fromCase toCase) Undefined = Inr []"
  by (simp add: callConverter_def converters_lookup createConverter_def Let_def)

section \<open>Identity conversions\<close>

text \<open>
  C4. For every case type \<open>S\<close> and every input \<open>x\<close>, nullish or a string, the conversion
  from \<open>S\<close> to \<open>S\<close> returns the normalised input: the empty string for a nullish input,
  the string itself otherwise (\<open>safeString\<close> is that normalisation).
\<close>

theorem identity_conversion_is_normalize:
  "callConverter (fnName S S) x = Inr (safeString x) \<and>
   safeString Null = [] \<and> safeString Undefined = [] \<and> safeString (Str s) = s"
  by (simp add: callConverter_def converters_lookup createConverter_def Let_def)

text \<open>
  C5, as the claim states it, fails: \<open>camelToCamel\<close> returns the string \<open>" a "\<close> with its
  leading and trailing space, not the trimmed string \<open>"a"\<close>.
\<close>

theorem identity_conversion_trims_counterexample:
  "callConverter ''camelToCamel'' (Str '' a '') = Inr '' a '' \<and>
   trim '' a '' = ''a'' \<and>
   callConverter ''camelToCamel'' (Str '' a '') \<noteq> Inr (trim '' a '')"
  using converters_lookup [of Camel Camel]
  by (simp add: fnName_Camel_Camel callConverter_def createConverter_def Let_def trim_def isSpace_def
      codeUnit_def)

text \<open>
  C5, amended. Each of the nine identity conversions returns a string input exactly as
  it is, white space included, and does so without tokenizing and formatting: on
  \<open>"a b"\<close> the camel tokenizer followed by the camel formatter would give another string.
\<close>

theorem identity_conversion_returns_input_unchanged:
  "callConverter (fnName S S) (Str s) = Inr s \<and>
   callConverter ''camelToCamel'' (Str ''a b'') \<noteq> Inr (format (tokenize ''a b'' Camel) Camel)"
proof -
  have "callConverter (fnName S S) (Str s) = Inr s"
    by (simp add: callConverter_def converters_lookup createConverter_def Let_def)
  moreover have "callConverter ''camelToCamel'' (Str ''a b'') = Inr ''a b''"
    using converters_lookup [of Camel Camel]
    by (simp add: fnName_Camel_Camel callConverter_def createConverter_def Let_def)
  moreover have "format (tokenize ''a b'' Camel) Camel = ''aB''"
    by (simp add: format_def tokenize_def tokenizeCamelPascal_def toCamel_def splitBy_def
        isSpace_def isaz09_def isaz_def is09_def isAZ_def codeUnit_def toLowerCase_def
        toUpperCase_def lowerUnit_def upperUnit_def hasLower_def hasUpper_def charAt0_def
        slice1_def enumerate_eq_zip char_of_def bit_0)
  ultimately show ?thesis by simp
qed

section \<open>Concrete conversions\<close>

text \<open>C8. \<open>kebabToScreaming("my-var-name")\<close> is \<open>"MY_VAR_NAME"\<close>.\<close>

theorem kebabToScreaming_my_var_name:
  "callConverter ''kebabToScreaming'' (Str ''my-var-name'') = Inr ''MY_VAR_NAME''"
  using converters_lookup [of Kebab Screaming]
  by (simp add: fnName_Kebab_Screaming callConverter_def createConverter_def Let_def format_def
      tokenize_def tokenizeSeparator_def split_def splitBy_def toScreamingSnake_def
      toLowerCase_def toUpperCase_def lowerUnit_def upperUnit_def hasLower_def hasUpper_def
      isaz_def isAZ_def codeUnit_def char_of_def bit_0)

section \<open>Flat styles and empty input\<close>

text \<open>
  C7. For the flat case types \<open>upper\<close> and \<open>lower\<close> the tokenizer returns, for every
  string, exactly one token: the whole string in lower case. The exported
  \<open>upperToWords\<close> and \<open>lowerToWords\<close> do the same.
\<close>

theorem flat_tokenizer_single_token:
  "tokenize s Upper = [toLowerCase s] \<and> tokenize s Lower = [toLowerCase s] \<and>
   length (tokenize s Upper) = 1 \<and> length (tokenize s Lower) = 1 \<and>
   upperToWords (Str s) = [toLowerCase s] \<and> lowerToWords (Str s) = [toLowerCase s]"
  by (simp add: tokenize_def tokenizeFlat_def upperToWords_def lowerToWords_def)

text \<open>
  C9. Each of the nine exported tokenizers returns the one-element sequence holding the
  empty string on \<open>null\<close>, on \<open>undefined\<close> and on the empty string.
\<close>

theorem toWords_of_empty_input:
  "map (\<lambda>toWords. map toWords [Null, Undefined, Str []])
       [camelToWords, pascalToWords, snakeToWords, screamingToWords, kebabToWords,
        dotToWords, pathToWords, upperToWords, lowerToWords]
   = replicate 9 (replicate 3 [[]])"
  by (simp add: camelToWords_def pascalToWords_def snakeToWords_def screamingToWords_def
      kebabToWords_def dotToWords_def pathToWords_def upperToWords_def lowerToWords_def
      tokenizeCamelPascal_def tokenizeSeparator_def tokenizeFlat_def split_def splitBy_def
      toLowerCase_def numeral_eq_Suc)

section \<open>Round trip through the separator styles\<close>

lemma lower_tokens_fixed:
  "list_all (list_all isaz09) tokens \<Longrightarrow> map toLowerCase tokens = tokens"
  by (simp add: toLowerCase_def list_all_iff map_idI isaz09_lowerUnit)

lemma isaz09_not_separator:
  "isaz09 c \<Longrightarrow> c \<noteq> CHR ''_'' \<and> c \<noteq> CHR ''-'' \<and> c \<noteq> CHR ''.'' \<and> c \<noteq> CHR ''/''"
  by (auto simp add: isaz09_def isaz_def is09_def codeUnit_def)

lemma tokenizeSeparator_join:
  assumes "tokens \<noteq> []" "list_all (list_all isaz09) tokens" "\<not> isaz09 sep"
  shows "tokenizeSeparator (join tokens [sep]) sep = tokens"
proof -
  have "\<forall>t \<in> set tokens. sep \<notin> set t"
    using assms(2,3) by (auto simp add: list_all_iff)
  with assms(1) have "split (join tokens [sep]) sep = tokens" by (rule split_join)
  then show ?thesis using assms(2) by (simp add: tokenizeSeparator_def lower_tokens_fixed)
qed

lemma lower_upper_join:
  assumes "list_all (list_all isaz09) tokens"
  shows "toLowerCase (toUpperCase (join tokens ''_'')) = join tokens ''_''"
proof -
  have "\<forall>c \<in> set (join tokens ''_''). lowerUnit (upperUnit c) = c"
  proof
    fix c assume "c \<in> set (join tokens ''_'')"
    then have "c \<in> \<Union> (set ` set tokens) \<union> set ''_''" using set_join by blast
    then consider "isaz09 c" | "c = CHR ''_''"
      using assms by (auto simp add: list_all_iff)
    then show "lowerUnit (upperUnit c) = c"
    proof cases
      case 1
      then show ?thesis by (rule isaz09_lower_upper)
    next
      case 2
      then show ?thesis using underscore_caseless by (simp add: lowerUnit_def upperUnit_def)
    qed
  qed
  then show ?thesis by (simp add: toLowerCase_def toUpperCase_def map_idI)
qed

text \<open>
  C1, as the claim states it, fails on the empty token sequence: every formatter joins
  it to the empty string, and the tokenizer splits the empty string into one empty token.
\<close>

theorem separator_roundtrip_empty_counterexample:
  "Snake \<in> {Snake, Screaming, Kebab, Dot, Path} \<and> list_all (list_all isaz09) [] \<and>
   format [] Snake = [] \<and> tokenize (format [] Snake) Snake = [[]] \<and>
   tokenize (format [] Snake) Snake \<noteq> []"
  by (simp add: format_def tokenize_def toSnake_def tokenizeSeparator_def split_def splitBy_def
      toLowerCase_def)

text \<open>
  C1, amended. For the separator styles snake, screaming-snake, kebab, dot and path and
  every token sequence that is not empty and whose tokens hold lowercase letters and
  digits only (so no separator character), tokenizing the formatted tokens gives the
  tokens back.
\<close>

theorem separator_roundtrip_nonempty:
  assumes "S \<in> {Snake, Screaming, Kebab, Dot, Path}"
    and "tokens \<noteq> []"
    and "list_all (list_all isaz09) tokens"
  shows "tokenize (format tokens S) S = tokens"
proof -
  have sep: "\<not> isaz09 CHR ''_''" "\<not> isaz09 CHR ''-''" "\<not> isaz09 CHR ''.''" "\<not> isaz09 CHR ''/''"
    using isaz09_not_separator by blast+
  consider "S = Snake" | "S = Screaming" | "S = Kebab" | "S = Dot" | "S = Path"
    using assms(1) by auto
  then show ?thesis
  proof cases
    case 1
    then show ?thesis
      using tokenizeSeparator_join [OF assms(2,3) sep(1)]
      by (simp add: tokenize_def format_def toSnake_def)
  next
    case 2
    then show ?thesis
      using tokenizeSeparator_join [OF assms(2,3) sep(1)] lower_upper_join [OF assms(3)]
      by (simp add: tokenize_def format_def toScreamingSnake_def)
  next
    case 3
    then show ?thesis
      using tokenizeSeparator_join [OF assms(2,3) sep(2)]
      by (simp add: tokenize_def format_def toKebab_def)
  next
    case 4
    then show ?thesis
      using tokenizeSeparator_join [OF assms(2,3) sep(3)]
      by (simp add: tokenize_def format_def toDot_def)
  next
    case 5
    then show ?thesis
      using tokenizeSeparator_join [OF assms(2,3) sep(4)]
      by (simp add: tokenize_def format_def toPath_def)
  qed
qed

theorem separator_roundtrip_nonempty_witness:
  "Screaming \<in> {Snake, Screaming, Kebab, Dot, Path} \<and> [''my'', ''var2''] \<noteq> [] \<and>
   list_all (list_all isaz09) [''my'', ''var2''] \<and>
   format [''my'', ''var2''] Screaming = ''MY_VAR2'' \<and>
   tokenize (format [''my'', ''var2''] Screaming) Screaming = [''my'', ''var2'']"
proof -
  have a: "Screaming \<in> {Snake, Screaming, Kebab, Dot, Path}" by simp
  have b: "[''my'', ''var2''] \<noteq> []" by simp
  have c: "list_all (list_all isaz09) [''my'', ''var2'']"
    by (simp add: isaz09_def isaz_def is09_def codeUnit_def)
  have d: "format [''my'', ''var2''] Screaming = ''MY_VAR2''"
    by (simp add: format_def toScreamingSnake_def toUpperCase_def upperUnit_def hasUpper_def
        isaz_def codeUnit_def char_of_def bit_0)
  show ?thesis using a b c d separator_roundtrip_nonempty [OF a b c] by simp
qed

section \<open>The screaming-snake tokenizer\<close>

text \<open>
  C10. Lowercasing the whole string and then splitting on \<open>_\<close> gives the same tokens as
  splitting on \<open>_\<close> and then lowercasing each fragment: \<open>screamingToWords\<close> and
  \<open>snakeToWords\<close> agree on every input, nullish or a string, and so do the two
  tokenizers of the table.
\<close>

theorem screaming_tokenizer_equals_snake_tokenizer:
  "screamingToWords x = snakeToWords x \<and> tokenize s Screaming = tokenize s Snake"
proof -
  have "split (toLowerCase t) CHR ''_'' = map toLowerCase (split t CHR ''_'')" for t
    using underscore_caseless by (simp add: split_toLowerCase)
  then have "tokenizeSeparator (toLowerCase t) CHR ''_'' = tokenizeSeparator t CHR ''_''" for t
    by (simp add: tokenizeSeparator_def toLowerCase_idem)
  then show ?thesis
    by (simp add: screamingToWords_def snakeToWords_def tokenize_def)
qed

section \<open>The camel formatter\<close>

lemma capitalize_source: "toUpperCase (charAt0 word) @ slice1 word = capitalize word"
  by (cases word) (simp_all add: toUpperCase_def charAt0_def slice1_def)

lemma map_enumerate_Suc:
  "map (\<lambda>(idx, word). if idx = 0 then word else F word) (enumerate (Suc n) ts) = map F ts"
  by (induction ts arbitrary: n) simp_all

text \<open>
  C6. For every token sequence whose tokens hold only code units on which the model's
  upper-case mapping is the built-in one (so for every sequence of lowercase ASCII
  tokens), the camel formatter returns the first token as it is, followed by every later
  token capitalized, with nothing in between; the empty sequence gives the empty string.
\<close>

theorem toCamel_first_as_is_rest_capitalized:
  assumes "list_all (list_all upperExact) tokens"
  shows "toCamel tokens =
         (case tokens of [] \<Rightarrow> [] | t # ts \<Rightarrow> t @ concat (map capitalize ts))"
  by (cases tokens)
     (simp_all add: toCamel_def join_no_separator map_enumerate_Suc capitalize_source)

theorem toCamel_first_as_is_rest_capitalized_witness:
  "list_all (list_all upperExact) [''my'', ''variable'', ''name''] \<and>
   toCamel [''my'', ''variable'', ''name''] = ''myVariableName''"
proof -
  have a: "list_all (list_all upperExact) [''my'', ''variable'', ''name'']"
    by (simp add: upperExact_def codeUnit_def)
  have b: "''my'' @ concat (map capitalize [''variable'', ''name'']) = ''myVariableName''"
    by (simp add: upperUnit_def hasUpper_def isaz_def codeUnit_def char_of_def bit_0)
  have "toCamel [''my'', ''variable'', ''name''] =
        ''my'' @ concat (map capitalize [''variable'', ''name''])"
    using toCamel_first_as_is_rest_capitalized [OF a] by simp
  then have "toCamel [''my'', ''variable'', ''name''] = ''myVariableName''"
    unfolding b .
  with a show ?thesis by blast
qed

section \<open>The camel/pascal tokenizer\<close>

lemma class_disjoint: "\<not> (isAZ c \<and> isaz09 c)" "\<not> (isAZ c \<and> isaz c)"
  by (auto simp add: isAZ_def isaz09_def isaz_def is09_def)

lemma space_classes:
  "\<not> isAZ CHR '' ''" "\<not> isaz CHR '' ''" "\<not> isaz09 CHR '' ''" "isSpace CHR '' ''"
  by (simp_all add: isAZ_def isaz09_def isaz_def is09_def isSpace_def codeUnit_def)

lemma replaceLowerUpper_skip:
  "\<not> isaz09 b \<Longrightarrow> replaceLowerUpper (b # cs) = b # replaceLowerUpper cs"
  by (cases cs) simp_all

lemma replaceLowerUpper_Cons:
  "replaceLowerUpper (a # cs) =
     (if isaz09 a \<and> startsUpper cs then a # CHR '' '' # replaceLowerUpper cs
      else a # replaceLowerUpper cs)"
proof (cases cs)
  case Nil
  then show ?thesis by simp
next
  case (Cons b cs')
  show ?thesis
  proof (cases "isaz09 a \<and> isAZ b")
    case True
    then have "\<not> isaz09 b" using class_disjoint(1) by blast
    then show ?thesis using True Cons by (simp add: replaceLowerUpper_skip)
  next
    case False
    then show ?thesis using Cons by auto
  qed
qed

lemma replaceUpperUpperLower_skip_head:
  "\<not> isAZ a \<Longrightarrow> replaceUpperUpperLower (a # cs) = a # replaceUpperUpperLower cs"
  by (cases cs rule: startsUpperLower.cases) simp_all

lemma replaceUpperUpperLower_skip_tail:
  "\<not> startsUpperLower cs \<Longrightarrow>
   replaceUpperUpperLower (a # cs) = a # replaceUpperUpperLower cs"
  by (cases cs rule: startsUpperLower.cases) auto

lemma replaceUpperUpperLower_Cons:
  "replaceUpperUpperLower (a # cs) =
     (if isAZ a \<and> startsUpperLower cs then a # CHR '' '' # replaceUpperUpperLower cs
      else a # replaceUpperUpperLower cs)"
proof (cases "isAZ a \<and> startsUpperLower cs")
  case False
  then show ?thesis
    using replaceUpperUpperLower_skip_head replaceUpperUpperLower_skip_tail by auto
next
  case True
  then obtain b c cs' where cs: "cs = b # c # cs'" and bc: "isAZ b" "isaz c"
    by (cases cs rule: startsUpperLower.cases) auto
  have "\<not> isAZ c" using bc(2) class_disjoint(2) by blast
  then have c: "replaceUpperUpperLower (c # cs') = c # replaceUpperUpperLower cs'"
    by (rule replaceUpperUpperLower_skip_head)
  have "\<not> startsUpperLower (c # cs')"
    using \<open>\<not> isAZ c\<close> by (cases cs') simp_all
  then have "replaceUpperUpperLower (b # c # cs') = b # replaceUpperUpperLower (c # cs')"
    by (rule replaceUpperUpperLower_skip_tail)
  then show ?thesis using True cs bc c by simp
qed

lemma replaceLowerUpper_head:
  "\<exists>rest. replaceLowerUpper (c # cs) = c # rest"
  by (simp add: replaceLowerUpper_Cons)

lemma startsUpperLower_replaceLowerUpper:
  "startsUpperLower (replaceLowerUpper cs) = startsUpperLower cs"
proof (cases cs)
  case Nil
  then show ?thesis by simp
next
  case (Cons b cs')
  note outer = Cons
  show ?thesis
  proof (cases "isAZ b")
    case False
    obtain rest where "replaceLowerUpper (b # cs') = b # rest"
      using replaceLowerUpper_head by blast
    then show ?thesis using False outer by (cases rest; cases cs') simp_all
  next
    case True
    then have nb: "\<not> isaz09 b" using class_disjoint(1) by blast
    show ?thesis
    proof (cases cs')
      case Nil
      then show ?thesis using outer by simp
    next
      case (Cons c cs'')
      obtain rest where "replaceLowerUpper (c # cs'') = c # rest"
        using replaceLowerUpper_head by blast
      then show ?thesis using outer Cons nb by (simp add: replaceLowerUpper_skip)
    qed
  qed
qed

lemma replace_twice_insertBoundaries:
  "replaceUpperUpperLower (replaceLowerUpper s) = insertBoundaries s"
proof (induction s)
  case Nil
  show ?case by simp
next
  case (Cons a cs)
  show ?case
  proof (cases "isaz09 a \<and> startsUpper cs")
    case True
    then have na: "\<not> isAZ a" using class_disjoint(1) by blast
    have "replaceUpperUpperLower (a # CHR '' '' # replaceLowerUpper cs) =
          a # CHR '' '' # replaceUpperUpperLower (replaceLowerUpper cs)"
      using na space_classes(1) by (simp add: replaceUpperUpperLower_skip_head)
    then show ?thesis using True Cons.IH
      by (simp add: replaceLowerUpper_Cons boundaryAfter_def)
  next
    case False
    have "replaceLowerUpper (a # cs) = a # replaceLowerUpper cs"
      using False by (simp add: replaceLowerUpper_Cons)
    then show ?thesis using False Cons.IH
      by (auto simp add: replaceUpperUpperLower_Cons startsUpperLower_replaceLowerUpper
          boundaryAfter_def)
  qed
qed

lemma splitAcc_insertBoundaries:
  "\<not> list_ex isSpace s \<Longrightarrow> splitAcc isSpace cur (insertBoundaries s) = cutAcc cur s"
  by (induction s arbitrary: cur) (simp_all add: space_classes)

text \<open>
  C2. For every input string the camel/pascal tokenizer returns what the two boundary
  rules describe: a space is put in at every place where a lowercase letter or digit is
  immediately followed by an uppercase letter, and where an uppercase letter is
  immediately followed by an uppercase and then a lowercase letter; the string is split
  at white space; every fragment is lowercased. On a string that holds no white space of
  its own the tokens are exactly the lowercased fragments between the boundaries.
\<close>

theorem tokenizeCamelPascal_two_boundary_rules:
  "tokenizeCamelPascal s = map toLowerCase (splitBy isSpace (insertBoundaries s)) \<and>
   (\<not> list_ex isSpace s \<longrightarrow> tokenizeCamelPascal s = map toLowerCase (cutAtBoundaries s))"
  by (simp add: tokenizeCamelPascal_def replace_twice_insertBoundaries splitBy_def
      cutAtBoundaries_def splitAcc_insertBoundaries)

theorem tokenizeCamelPascal_two_boundary_rules_witness:
  "\<not> list_ex isSpace ''myXMLParser2Go'' \<and>
   cutAtBoundaries ''myXMLParser2Go'' = [''my'', ''XML'', ''Parser2'', ''Go''] \<and>
   tokenizeCamelPascal ''myXMLParser2Go'' = [''my'', ''xml'', ''parser2'', ''go'']"
proof -
  have a: "\<not> list_ex isSpace ''myXMLParser2Go''"
    by (simp add: isSpace_def codeUnit_def)
  have b: "cutAtBoundaries ''myXMLParser2Go'' = [''my'', ''XML'', ''Parser2'', ''Go'']"
    by (simp add: cutAtBoundaries_def boundaryAfter_def isaz09_def isaz_def is09_def isAZ_def
        codeUnit_def)
  have c: "map toLowerCase [''my'', ''XML'', ''Parser2'', ''Go''] =
           [''my'', ''xml'', ''parser2'', ''go'']"
    by (simp add: toLowerCase_def lowerUnit_def hasLower_def isAZ_def codeUnit_def char_of_def
        bit_0)
  have "tokenizeCamelPascal ''myXMLParser2Go'' =
        map toLowerCase (cutAtBoundaries ''myXMLParser2Go'')"
    using a tokenizeCamelPascal_two_boundary_rules [of "''myXMLParser2Go''"] by blast
  then have "tokenizeCamelPascal ''myXMLParser2Go'' = [''my'', ''xml'', ''parser2'', ''go'']"
    unfolding b c .
  with a b show ?thesis by blast
qed

end
